theory Spec2Isabelle
  imports Main "HOL-Library.Word"
begin

section \<open>The GPIO 1-Wire bus master (drivers/w1/masters/w1-gpio.c)\<close>

subsection \<open>Data model\<close>

text \<open>
  A \<^verbatim>\<open>struct gpio_desc *\<close> that is neither NULL nor an error pointer is identified by a
  number. A pointer field that may be NULL is an \<open>option\<close>.
\<close>

type_synonym gpio_desc = nat

text \<open>The values of \<^verbatim>\<open>enum gpiod_flags\<close> that the driver uses.\<close>

datatype gpiod_flags = GPIOD_IN | GPIOD_OUT_LOW | GPIOD_OUT_LOW_OPEN_DRAIN

text \<open>
  \<^verbatim>\<open>struct w1_gpio_platform_data\<close>, with the four fields the driver reads and writes. The
  struct is declared in include/linux/w1-gpio.h, outside the driver file; the fields are
  taken from their uses in the driver. The duration is taken to be 32 bits wide, as the
  \<^verbatim>\<open>int delay\<close> stored into it and the \<^verbatim>\<open>unsigned int\<close> parameter of \<^verbatim>\<open>msleep\<close>
  are.
\<close>

record w1_gpio_platform_data =
  gpiod :: "gpio_desc option"
  pulldown_gpiod :: "gpio_desc option"
  strong_pullup_gpiod :: "gpio_desc option"
  strong_pullup_duration :: "32 word"

text \<open>
  \<^verbatim>\<open>struct w1_bus_master\<close>: the three callbacks that the driver fills in. A callback pointer
  is either NULL (the structure comes zeroed from \<^verbatim>\<open>devm_kzalloc\<close>) or the address of
  one of the driver's functions. The \<^verbatim>\<open>data\<close> pointer always is the platform data of
  the same device and is not repeated here.
\<close>

datatype callback = W1_GPIO_READ_BIT | W1_GPIO_WRITE_BIT | W1_GPIO_SET_PULLUP

record w1_bus_master =
  read_bit :: "callback option"
  write_bit :: "callback option"
  set_pullup :: "callback option"

text \<open>
  What the driver does to the outside world, in the order in which it does it: calls into
  gpiolib, sleeping, logging, and calls into the bus-master framework.
\<close>

datatype event =
    DevmGpiodGetIndex nat gpiod_flags
  | DevmGpiodGetIndexOptional nat gpiod_flags
  | GpiodDirectionOutput gpio_desc int
  | GpiodSetValue gpio_desc int
  | Msleep nat
  | Printk string
  | W1AddMasterDevice
  | W1RemoveMasterDevice

text \<open>
  The state of an attached device: its platform data, the logical value the driver last put
  on each line (\<open>None\<close> for a line it never drove), the logical level that a read of a line
  senses (set by the bus, not by the driver), the events so far, and the driver data of
  the platform device (the registered bus master).
\<close>

record w1_gpio_state =
  pdata :: w1_gpio_platform_data
  driven :: "gpio_desc \<rightharpoonup> bool"
  level :: "gpio_desc \<Rightarrow> bool"
  trace :: "event list"
  drvdata :: "w1_bus_master option"

subsection \<open>The kernel services the driver calls\<close>

text \<open>
  These functions are defined outside the driver file (gpiolib, the timer and the printk
  subsystems). Each is modelled by its documented contract, as far as the driver depends
  on it.

  \<^verbatim>\<open>gpiod_set_value(desc, value)\<close> sets the logical value of a line; a non-zero value is
  active. On a NULL descriptor it does nothing.
\<close>

definition gpiod_set_value :: "gpio_desc option \<Rightarrow> int \<Rightarrow> w1_gpio_state \<Rightarrow> w1_gpio_state" where
  "gpiod_set_value desc v s =
     (case desc of
        None \<Rightarrow> s
      | Some d \<Rightarrow> s\<lparr>driven := (driven s)(d \<mapsto> v \<noteq> 0), trace := trace s @ [GpiodSetValue d v]\<rparr>)"

text \<open>
  \<^verbatim>\<open>gpiod_get_value(desc)\<close> returns the logical level of a line as 0 or 1, and 0 for a NULL
  descriptor. Its error returns are outside the model.
\<close>

definition gpiod_get_value :: "gpio_desc option \<Rightarrow> w1_gpio_state \<Rightarrow> int" where
  "gpiod_get_value desc s =
     (case desc of None \<Rightarrow> 0 | Some d \<Rightarrow> if level s d then 1 else 0)"

text \<open>\<^verbatim>\<open>gpiod_direction_output(desc, value)\<close> makes the line an output with that value.\<close>

definition gpiod_direction_output :: "gpio_desc option \<Rightarrow> int \<Rightarrow> w1_gpio_state \<Rightarrow> w1_gpio_state" where
  "gpiod_direction_output desc v s =
     (case desc of
        None \<Rightarrow> s
      | Some d \<Rightarrow> s\<lparr>driven := (driven s)(d \<mapsto> v \<noteq> 0), trace := trace s @ [GpiodDirectionOutput d v]\<rparr>)"

text \<open>\<^verbatim>\<open>msleep(msecs)\<close> blocks the caller; its parameter is an \<^verbatim>\<open>unsigned int\<close>.\<close>

definition msleep :: "32 word \<Rightarrow> w1_gpio_state \<Rightarrow> w1_gpio_state" where
  "msleep msecs s = s\<lparr>trace := trace s @ [Msleep (unat msecs)]\<rparr>"

definition printk :: "string \<Rightarrow> w1_gpio_state \<Rightarrow> w1_gpio_state" where
  "printk msg s = s\<lparr>trace := trace s @ [Printk msg]\<rparr>"

subsection \<open>The bus-master callbacks\<close>

text \<open>
  \<^verbatim>\<open>static u8 w1_gpio_set_pullup(void *data, int delay)\<close>. The \<^verbatim>\<open>int\<close> is a 32-bit word;
  the test \<^verbatim>\<open>if (delay)\<close> is a comparison with zero.
\<close>

definition w1_gpio_set_pullup :: "w1_gpio_state \<Rightarrow> 32 word \<Rightarrow> 8 word \<times> w1_gpio_state" where
  "w1_gpio_set_pullup s delay =
     (if delay \<noteq> 0 then
        (0, s\<lparr>pdata := (pdata s)\<lparr>strong_pullup_duration := delay\<rparr>\<rparr>)
      else
        let s1 =
          (if strong_pullup_duration (pdata s) \<noteq> 0 then
             (if strong_pullup_gpiod (pdata s) \<noteq> None then
                gpiod_set_value (strong_pullup_gpiod (pdata s)) 0
                  (msleep (strong_pullup_duration (pdata s))
                    (gpiod_set_value (strong_pullup_gpiod (pdata s)) 1 s))
              else
                printk ''W1-GPIO: strong pull up requested, but not available'' s)
           else s)
        in (0, s1\<lparr>pdata := (pdata s1)\<lparr>strong_pullup_duration := 0\<rparr>\<rparr>))"

text \<open>
  \<^verbatim>\<open>static void w1_gpio_write_bit(void *data, u8 bit)\<close>. The C expression \<^verbatim>\<open>!bit\<close> is 1
  when \<^verbatim>\<open>bit\<close> is zero and 0 otherwise; \<^verbatim>\<open>bit\<close> itself is promoted to \<^verbatim>\<open>int\<close>.
\<close>

definition w1_gpio_write_bit :: "w1_gpio_state \<Rightarrow> 8 word \<Rightarrow> w1_gpio_state" where
  "w1_gpio_write_bit s b =
     (if pulldown_gpiod (pdata s) \<noteq> None then
        gpiod_set_value (pulldown_gpiod (pdata s)) (if b = 0 then 1 else 0) s
      else
        gpiod_set_value (gpiod (pdata s)) (uint b) s)"

text \<open>
  \<^verbatim>\<open>static u8 w1_gpio_read_bit(void *data)\<close>. The state is returned beside the bit, so that
  what the call leaves behind can be stated.
\<close>

definition w1_gpio_read_bit :: "w1_gpio_state \<Rightarrow> 8 word \<times> w1_gpio_state" where
  "w1_gpio_read_bit s = ((if gpiod_get_value (gpiod (pdata s)) s \<noteq> 0 then 1 else 0), s)"

text \<open>
  The bus-master framework calls \<^verbatim>\<open>read_bit\<close> and \<^verbatim>\<open>write_bit\<close> in any order.
  \<open>w1_gpio_bit_ops\<close> runs such a sequence of calls on a state.
\<close>

datatype bit_op = ReadBit | WriteBit "8 word"

fun w1_gpio_bit_op :: "bit_op \<Rightarrow> w1_gpio_state \<Rightarrow> w1_gpio_state" where
  "w1_gpio_bit_op ReadBit s = snd (w1_gpio_read_bit s)"
| "w1_gpio_bit_op (WriteBit b) s = w1_gpio_write_bit s b"

fun w1_gpio_bit_ops :: "bit_op list \<Rightarrow> w1_gpio_state \<Rightarrow> w1_gpio_state" where
  "w1_gpio_bit_ops [] s = s"
| "w1_gpio_bit_ops (x # xs) s = w1_gpio_bit_ops xs (w1_gpio_bit_op x s)"

text \<open>
  The line that \<^verbatim>\<open>w1_gpio_write_bit\<close> passes to \<^verbatim>\<open>gpiod_set_value\<close>: the pull-down line
  when there is one, the data line otherwise.
\<close>

definition drive_line :: "w1_gpio_state \<Rightarrow> gpio_desc option" where
  "drive_line s =
     (if pulldown_gpiod (pdata s) \<noteq> None then pulldown_gpiod (pdata s) else gpiod (pdata s))"

subsection \<open>Attach and detach\<close>

text \<open>
  What \<^verbatim>\<open>w1_gpio_probe\<close> finds when it runs: whether a device tree is populated and which
  properties the device's node has, the platform data registered with the device (or
  NULL), whether the two allocations succeed, what the GPIO lookup has for each index of
  the device, what \<^verbatim>\<open>w1_add_master_device\<close> returns, and the levels on the lines.
  A \<open>LookupError\<close> carries the negative error number of a lookup that failed for another
  reason than a missing assignment (a busy line, a deferred probe).
\<close>

datatype gpio_lookup = Assigned gpio_desc | NotAssigned | LookupError int

record platform_device =
  of_have_populated_dt :: bool
  of_properties :: "string list"
  platform_data :: "w1_gpio_platform_data option"
  kzalloc_pdata_ok :: bool
  kzalloc_master_ok :: bool
  gpio_lookup :: "nat \<Rightarrow> gpio_lookup"
  w1_add_master_device_ret :: int
  line_level :: "gpio_desc \<Rightarrow> bool"

text \<open>Error numbers (include/uapi/asm-generic/errno-base.h).\<close>

definition ENOENT :: int where "ENOENT = 2"
definition ENXIO :: int where "ENXIO = 6"
definition ENOMEM :: int where "ENOMEM = 12"

text \<open>
  A \<^verbatim>\<open>struct gpio_desc *\<close> as gpiolib returns it: NULL, an error pointer
  (\<^verbatim>\<open>IS_ERR\<close> holds and \<^verbatim>\<open>PTR_ERR\<close> gives the negative error number), or a descriptor.
\<close>

datatype gpio_ptr = Null | ErrPtr int | Desc gpio_desc

fun desc_of :: "gpio_ptr \<Rightarrow> gpio_desc option" where
  "desc_of (Desc d) = Some d"
| "desc_of _ = None"

text \<open>
  A line requested with \<^verbatim>\<open>GPIOD_OUT_LOW\<close> or \<^verbatim>\<open>GPIOD_OUT_LOW_OPEN_DRAIN\<close> is an output
  that starts at logical 0; a line requested with \<^verbatim>\<open>GPIOD_IN\<close> is not driven.
\<close>

fun configure_flags :: "gpiod_flags \<Rightarrow> gpio_desc \<Rightarrow> (gpio_desc \<rightharpoonup> bool) \<Rightarrow> (gpio_desc \<rightharpoonup> bool)" where
  "configure_flags GPIOD_IN d m = m(d := None)"
| "configure_flags GPIOD_OUT_LOW d m = m(d \<mapsto> False)"
| "configure_flags GPIOD_OUT_LOW_OPEN_DRAIN d m = m(d \<mapsto> False)"

text \<open>
  \<^verbatim>\<open>devm_gpiod_get_index(dev, NULL, idx, flags)\<close> is gpiolib's
  (drivers/gpio/gpiolib-devres.c). By its contract it returns the descriptor of the GPIO
  with that index, configured with the flags, and an error pointer otherwise:
  \<^verbatim>\<open>-ENOENT\<close> when no GPIO is assigned to the index. It never returns NULL.
\<close>

definition devm_gpiod_get_index ::
  "platform_device \<Rightarrow> nat \<Rightarrow> gpiod_flags \<Rightarrow> w1_gpio_state \<Rightarrow> gpio_ptr \<times> w1_gpio_state" where
  "devm_gpiod_get_index pdev idx flags s =
     (let s' = s\<lparr>trace := trace s @ [DevmGpiodGetIndex idx flags]\<rparr> in
      case gpio_lookup pdev idx of
        Assigned d \<Rightarrow> (Desc d, s'\<lparr>driven := configure_flags flags d (driven s')\<rparr>)
      | NotAssigned \<Rightarrow> (ErrPtr (- ENOENT), s')
      | LookupError e \<Rightarrow> (ErrPtr e, s'))"

text \<open>
  \<^verbatim>\<open>devm_gpiod_get_index_optional\<close> differs in one point: when no GPIO is assigned to the
  index (the error \<^verbatim>\<open>-ENOENT\<close>) it returns NULL instead of an error pointer.
\<close>

definition devm_gpiod_get_index_optional ::
  "platform_device \<Rightarrow> nat \<Rightarrow> gpiod_flags \<Rightarrow> w1_gpio_state \<Rightarrow> gpio_ptr \<times> w1_gpio_state" where
  "devm_gpiod_get_index_optional pdev idx flags s =
     (let s' = s\<lparr>trace := trace s @ [DevmGpiodGetIndexOptional idx flags]\<rparr> in
      case gpio_lookup pdev idx of
        Assigned d \<Rightarrow> (Desc d, s'\<lparr>driven := configure_flags flags d (driven s')\<rparr>)
      | NotAssigned \<Rightarrow> (Null, s')
      | LookupError e \<Rightarrow> (if e = - ENOENT then Null else ErrPtr e, s'))"

text \<open>\<^verbatim>\<open>of_get_property(np, name, NULL)\<close> is non-NULL when the node has the property.\<close>

definition of_get_property :: "platform_device \<Rightarrow> string \<Rightarrow> bool" where
  "of_get_property pdev name = (name \<in> set (of_properties pdev))"

text \<open>
  The value of \<^verbatim>\<open>gflags\<close> when the pull-down line is requested (lines 77 to 95 of
  w1-gpio.c): open drain by default, a plain output when a device tree is populated and
  the node has the property \<^verbatim>\<open>linux,open-drain\<close>.
\<close>

definition probe_gflags :: "platform_device \<Rightarrow> gpiod_flags" where
  "probe_gflags pdev =
     (if of_have_populated_dt pdev \<and> of_get_property pdev ''linux,open-drain''
      then GPIOD_OUT_LOW else GPIOD_OUT_LOW_OPEN_DRAIN)"

text \<open>
  The platform data that \<^verbatim>\<open>dev_get_platdata\<close> returns at line 96: the zeroed structure
  allocated at line 81 when a device tree is populated, what the platform registered
  otherwise.
\<close>

definition probe_platdata :: "platform_device \<Rightarrow> w1_gpio_platform_data option" where
  "probe_platdata pdev =
     (if of_have_populated_dt pdev then
        Some \<lparr>gpiod = None, pulldown_gpiod = None, strong_pullup_gpiod = None,
              strong_pullup_duration = 0\<rparr>
      else platform_data pdev)"

text \<open>
  The bus master as lines 135 to 140 fill it in, from the final value of \<^verbatim>\<open>gflags\<close> and
  the platform data.
\<close>

definition probe_master :: "gpiod_flags \<Rightarrow> w1_gpio_platform_data \<Rightarrow> w1_bus_master" where
  "probe_master gflags pd =
     \<lparr>read_bit = Some W1_GPIO_READ_BIT,
      write_bit = Some W1_GPIO_WRITE_BIT,
      set_pullup =
        (if gflags = GPIOD_OUT_LOW_OPEN_DRAIN \<or> strong_pullup_gpiod pd \<noteq> None
         then Some W1_GPIO_SET_PULLUP else None)\<rparr>"

text \<open>
  \<^verbatim>\<open>static int w1_gpio_probe(struct platform_device *pdev)\<close>. A failed attach is \<open>Inl\<close> of
  the negative error number that the function returns; a successful one (return value 0)
  is \<open>Inr\<close> of the state it leaves. The \<^verbatim>\<open>dev_err\<close> messages of the failing branches are
  not recorded.
\<close>

definition w1_gpio_probe :: "platform_device \<Rightarrow> int + w1_gpio_state" where
  "w1_gpio_probe pdev =
     (if of_have_populated_dt pdev \<and> \<not> kzalloc_pdata_ok pdev then Inl (- ENOMEM)
      else case probe_platdata pdev of
        None \<Rightarrow> Inl (- ENXIO)
      | Some pd \<Rightarrow>
         (if \<not> kzalloc_master_ok pdev then Inl (- ENOMEM)
          else
            let s0 = \<lparr>pdata = pd, driven = Map.empty, level = line_level pdev,
                      trace = [], drvdata = None\<rparr>
            in case devm_gpiod_get_index_optional pdev 2 GPIOD_OUT_LOW s0 of
              (ErrPtr e, _) \<Rightarrow> Inl e
            | (p2, s1) \<Rightarrow>
               (let s2 = s1\<lparr>pdata := (pdata s1)\<lparr>pulldown_gpiod := desc_of p2\<rparr>\<rparr>;
                    gflags = (if pulldown_gpiod (pdata s2) \<noteq> None then GPIOD_IN
                              else probe_gflags pdev)
                in case devm_gpiod_get_index pdev 0 gflags s2 of
                  (ErrPtr e, _) \<Rightarrow> Inl e
                | (p0, s3) \<Rightarrow>
                   (let s4 = s3\<lparr>pdata := (pdata s3)\<lparr>gpiod := desc_of p0\<rparr>\<rparr>
                    in case devm_gpiod_get_index pdev 1 GPIOD_OUT_LOW s4 of
                      (ErrPtr e, _) \<Rightarrow> Inl e
                    | (p1, s5) \<Rightarrow>
                       (let s6 = s5\<lparr>pdata := (pdata s5)\<lparr>strong_pullup_gpiod := desc_of p1\<rparr>\<rparr>;
                            s7 = (if pulldown_gpiod (pdata s6) = None
                                  then gpiod_direction_output (gpiod (pdata s6)) 1 s6
                                  else s6);
                            master = probe_master gflags (pdata s7);
                            s8 = s7\<lparr>trace := trace s7 @ [W1AddMasterDevice]\<rparr>
                        in if w1_add_master_device_ret pdev \<noteq> 0
                           then Inl (w1_add_master_device_ret pdev)
                           else Inr (s8\<lparr>drvdata := Some master\<rparr>))))))"

text \<open>
  \<^verbatim>\<open>static int w1_gpio_remove(struct platform_device *pdev)\<close>, on the state of an attached
  device.
\<close>

definition w1_gpio_remove :: "w1_gpio_state \<Rightarrow> int \<times> w1_gpio_state" where
  "w1_gpio_remove s =
     (let s1 = (if strong_pullup_gpiod (pdata s) \<noteq> None
                then gpiod_set_value (strong_pullup_gpiod (pdata s)) 0 s
                else s);
          s2 = s1\<lparr>trace := trace s1 @ [W1RemoveMasterDevice]\<rparr>
      in (0, s2))"

subsection \<open>Example devices\<close>

text \<open>
  Four device-tree nodes: data and strong pull-up lines; the same with the property
  \<^verbatim>\<open>linux,open-drain\<close>; data, strong pull-up and pull-down lines; and a data line only.
\<close>

definition dt_node :: "string list \<Rightarrow> (nat \<Rightarrow> gpio_lookup) \<Rightarrow> platform_device" where
  "dt_node props gpios =
     \<lparr>of_have_populated_dt = True, of_properties = props, platform_data = None,
      kzalloc_pdata_ok = True, kzalloc_master_ok = True, gpio_lookup = gpios,
      w1_add_master_device_ret = 0, line_level = (\<lambda>_. True)\<rparr>"

definition gpios_data_strong :: "nat \<Rightarrow> gpio_lookup" where
  "gpios_data_strong = (\<lambda>_. NotAssigned)(0 := Assigned 10, 1 := Assigned 11)"

definition gpios_all :: "nat \<Rightarrow> gpio_lookup" where
  "gpios_all = (\<lambda>_. NotAssigned)(0 := Assigned 10, 1 := Assigned 11, 2 := Assigned 12)"

definition gpios_data_only :: "nat \<Rightarrow> gpio_lookup" where
  "gpios_data_only = (\<lambda>_. NotAssigned)(0 := Assigned 10)"

text \<open>An attached state with the data line 10, and the strong pull-up line as given.\<close>

definition idle_state :: "gpio_desc option \<Rightarrow> gpio_desc option \<Rightarrow> w1_gpio_state" where
  "idle_state pd sp =
     \<lparr>pdata = \<lparr>gpiod = Some 10, pulldown_gpiod = pd, strong_pullup_gpiod = sp,
               strong_pullup_duration = 0\<rparr>,
      driven = Map.empty, level = (\<lambda>_. True), trace = [], drvdata = None\<rparr>"

subsection \<open>Strong pull-up\<close>

lemma set_pullup_nonzero:
  "delay \<noteq> 0 \<Longrightarrow>
     w1_gpio_set_pullup s delay = (0, s\<lparr>pdata := (pdata s)\<lparr>strong_pullup_duration := delay\<rparr>\<rparr>)"
  by (simp add: w1_gpio_set_pullup_def)

lemma set_pullup_zero_idle:
  "strong_pullup_duration (pdata s) = 0 \<Longrightarrow> w1_gpio_set_pullup s 0 = (0, s)"
  by (simp add: w1_gpio_set_pullup_def)

lemma set_pullup_zero_pulse:
  assumes "strong_pullup_duration (pdata s) \<noteq> 0"
    and "strong_pullup_gpiod (pdata s) = Some sp"
  shows "w1_gpio_set_pullup s 0 =
     (0, s\<lparr>pdata := (pdata s)\<lparr>strong_pullup_duration := 0\<rparr>,
           driven := (driven s)(sp \<mapsto> False),
           trace := trace s @
             [GpiodSetValue sp 1, Msleep (unat (strong_pullup_duration (pdata s))),
              GpiodSetValue sp 0]\<rparr>)"
  using assms
  by (simp add: w1_gpio_set_pullup_def gpiod_set_value_def msleep_def)

lemma set_pullup_zero_unavailable:
  assumes "strong_pullup_duration (pdata s) \<noteq> 0"
    and "strong_pullup_gpiod (pdata s) = None"
  shows "w1_gpio_set_pullup s 0 =
     (0, s\<lparr>pdata := (pdata s)\<lparr>strong_pullup_duration := 0\<rparr>,
           trace := trace s @
             [Printk ''W1-GPIO: strong pull up requested, but not available'']\<rparr>)"
  using assms
  by (simp add: w1_gpio_set_pullup_def printk_def)

lemma set_pullup_zero_clears:
  "strong_pullup_duration (pdata (snd (w1_gpio_set_pullup s 0))) = 0"
  by (simp add: w1_gpio_set_pullup_def Let_def)

text \<open>
  Claim C1. A call of \<open>set_pullup\<close> with a non-zero delay stores the delay as the pending
  duration and does nothing else: the lines and the trace are as before. A call with
  delay zero, on a state with a pending duration and a strong pull-up line, sets that
  line to 1, sleeps for the pending duration and sets the line to 0.
\<close>

theorem set_pullup_arm_then_pulse:
  "(delay \<noteq> 0 \<longrightarrow>
      w1_gpio_set_pullup s delay =
        (0, s\<lparr>pdata := (pdata s)\<lparr>strong_pullup_duration := delay\<rparr>\<rparr>)) \<and>
   (strong_pullup_duration (pdata s) \<noteq> 0 \<and> strong_pullup_gpiod (pdata s) = Some sp \<longrightarrow>
      w1_gpio_set_pullup s 0 =
        (0, s\<lparr>pdata := (pdata s)\<lparr>strong_pullup_duration := 0\<rparr>,
              driven := (driven s)(sp \<mapsto> False),
              trace := trace s @
                [GpiodSetValue sp 1, Msleep (unat (strong_pullup_duration (pdata s))),
                 GpiodSetValue sp 0]\<rparr>))"
  using set_pullup_nonzero [of delay s] set_pullup_zero_pulse [of s sp] by blast

text \<open>
  At a device with the strong pull-up line 11: \<open>set_pullup(200)\<close> only arms, and the
  following \<open>set_pullup(0)\<close> pulses line 11 for 200 ms and leaves it inactive.
\<close>

theorem set_pullup_arm_then_pulse_witness:
  "w1_gpio_set_pullup (idle_state None (Some 11)) 200 =
     (0, (idle_state None (Some 11))
           \<lparr>pdata := (pdata (idle_state None (Some 11)))\<lparr>strong_pullup_duration := 200\<rparr>\<rparr>) \<and>
   trace (snd (w1_gpio_set_pullup (snd (w1_gpio_set_pullup (idle_state None (Some 11)) 200)) 0)) =
     [GpiodSetValue 11 1, Msleep 200, GpiodSetValue 11 0] \<and>
   driven (snd (w1_gpio_set_pullup (snd (w1_gpio_set_pullup (idle_state None (Some 11)) 200)) 0)) 11 =
     Some False \<and>
   strong_pullup_duration
     (pdata (snd (w1_gpio_set_pullup (snd (w1_gpio_set_pullup (idle_state None (Some 11)) 200)) 0))) = 0"
proof -
  let ?s = "idle_state None (Some 11)"
  let ?a = "?s\<lparr>pdata := (pdata ?s)\<lparr>strong_pullup_duration := 200\<rparr>\<rparr>"
  have arm: "w1_gpio_set_pullup ?s 200 = (0, ?a)"
    using set_pullup_arm_then_pulse [of 200 ?s] by simp
  have "strong_pullup_duration (pdata ?a) \<noteq> 0 \<and> strong_pullup_gpiod (pdata ?a) = Some 11"
    by (simp add: idle_state_def)
  then have pulse: "w1_gpio_set_pullup ?a 0 =
        (0, ?a\<lparr>pdata := (pdata ?a)\<lparr>strong_pullup_duration := 0\<rparr>,
              driven := (driven ?a)(11 \<mapsto> False),
              trace := trace ?a @
                [GpiodSetValue 11 1, Msleep (unat (strong_pullup_duration (pdata ?a))),
                 GpiodSetValue 11 0]\<rparr>)"
    using set_pullup_arm_then_pulse [of 0 ?a 11] by blast
  show ?thesis
    unfolding arm snd_conv pulse by (simp add: idle_state_def)
qed

text \<open>
  Claim C2. After any call of \<open>set_pullup(0)\<close> the pending duration is zero, with or
  without a strong pull-up line and whatever was pending; a second \<open>set_pullup(0)\<close> right
  after it changes nothing at all, so it adds no event to the trace.
\<close>

theorem set_pullup_consumes_duration:
  "strong_pullup_duration (pdata (snd (w1_gpio_set_pullup s 0))) = 0 \<and>
   w1_gpio_set_pullup (snd (w1_gpio_set_pullup s 0)) 0 = (0, snd (w1_gpio_set_pullup s 0))"
  using set_pullup_zero_clears [of s] set_pullup_zero_idle [of "snd (w1_gpio_set_pullup s 0)"]
  by simp

text \<open>
  Claim C8. \<open>set_pullup\<close> returns 0 on every state and for every delay. With a pending
  duration and no strong pull-up line, \<open>set_pullup(0)\<close> logs one message, clears the
  duration and touches no line.
\<close>

theorem set_pullup_always_succeeds:
  "fst (w1_gpio_set_pullup s delay) = 0 \<and>
   (strong_pullup_duration (pdata s) \<noteq> 0 \<and> strong_pullup_gpiod (pdata s) = None \<longrightarrow>
      w1_gpio_set_pullup s 0 =
        (0, s\<lparr>pdata := (pdata s)\<lparr>strong_pullup_duration := 0\<rparr>,
              trace := trace s @
                [Printk ''W1-GPIO: strong pull up requested, but not available'']\<rparr>))"
proof -
  have "fst (w1_gpio_set_pullup s delay) = 0"
    by (simp add: w1_gpio_set_pullup_def Let_def)
  then show ?thesis
    using set_pullup_zero_unavailable [of s] by blast
qed

text \<open>A state without strong pull-up line, armed with 200 ms.\<close>

theorem set_pullup_always_succeeds_witness:
  "fst (w1_gpio_set_pullup (idle_state None None) 200) = 0 \<and>
   w1_gpio_set_pullup
     ((idle_state None None)\<lparr>pdata := (pdata (idle_state None None))\<lparr>strong_pullup_duration := 200\<rparr>\<rparr>) 0 =
     (0, (idle_state None None)
           \<lparr>trace := [Printk ''W1-GPIO: strong pull up requested, but not available'']\<rparr>)"
proof -
  let ?s = "idle_state None None"
  let ?a = "?s\<lparr>pdata := (pdata ?s)\<lparr>strong_pullup_duration := 200\<rparr>\<rparr>"
  have h: "strong_pullup_duration (pdata ?a) \<noteq> 0 \<and> strong_pullup_gpiod (pdata ?a) = None"
    by (simp add: idle_state_def)
  have "fst (w1_gpio_set_pullup ?s 200) = 0"
    using set_pullup_always_succeeds [of ?s 200] by blast
  moreover have "w1_gpio_set_pullup ?a 0 =
        (0, ?a\<lparr>pdata := (pdata ?a)\<lparr>strong_pullup_duration := 0\<rparr>,
              trace := trace ?a @
                [Printk ''W1-GPIO: strong pull up requested, but not available'']\<rparr>)"
    using set_pullup_always_succeeds [of ?a 0] h by blast
  ultimately show ?thesis
    by (simp add: idle_state_def)
qed

subsection \<open>Bit transfer\<close>

lemma write_bit_pulldown:
  "pulldown_gpiod (pdata s) = Some pd \<Longrightarrow>
     w1_gpio_write_bit s b =
       s\<lparr>driven := (driven s)(pd \<mapsto> b = 0),
         trace := trace s @ [GpiodSetValue pd (if b = 0 then 1 else 0)]\<rparr>"
  by (simp add: w1_gpio_write_bit_def gpiod_set_value_def)

lemma write_bit_data:
  "pulldown_gpiod (pdata s) = None \<Longrightarrow> gpiod (pdata s) = Some d \<Longrightarrow>
     w1_gpio_write_bit s b =
       s\<lparr>driven := (driven s)(d \<mapsto> b \<noteq> 0), trace := trace s @ [GpiodSetValue d (uint b)]\<rparr>"
  by (simp add: w1_gpio_write_bit_def gpiod_set_value_def uint_0_iff)

lemma write_bit_frame:
  "pdata (w1_gpio_write_bit s b) = pdata s \<and> level (w1_gpio_write_bit s b) = level s \<and>
   drvdata (w1_gpio_write_bit s b) = drvdata s"
  by (simp add: w1_gpio_write_bit_def gpiod_set_value_def split: option.splits)

lemma write_bit_other_lines:
  "drive_line s \<noteq> Some d \<Longrightarrow> driven (w1_gpio_write_bit s b) d = driven s d"
  by (auto simp: w1_gpio_write_bit_def gpiod_set_value_def drive_line_def split: option.splits)

lemma write_bit_drive_line: "drive_line (w1_gpio_write_bit s b) = drive_line s"
  by (simp add: drive_line_def write_bit_frame)

lemma read_bit_state: "snd (w1_gpio_read_bit s) = s"
  by (simp add: w1_gpio_read_bit_def)

lemma bit_op_frame:
  "pdata (w1_gpio_bit_op x s) = pdata s \<and> level (w1_gpio_bit_op x s) = level s \<and>
   drvdata (w1_gpio_bit_op x s) = drvdata s \<and> drive_line (w1_gpio_bit_op x s) = drive_line s"
  by (cases x) (simp_all add: read_bit_state write_bit_frame write_bit_drive_line)

lemma bit_op_other_lines:
  "drive_line s \<noteq> Some d \<Longrightarrow> driven (w1_gpio_bit_op x s) d = driven s d"
  by (cases x) (simp_all add: read_bit_state write_bit_other_lines)

lemma bit_ops_frame:
  "pdata (w1_gpio_bit_ops xs s) = pdata s \<and> level (w1_gpio_bit_ops xs s) = level s \<and>
   drvdata (w1_gpio_bit_ops xs s) = drvdata s \<and> drive_line (w1_gpio_bit_ops xs s) = drive_line s"
proof (induction xs arbitrary: s)
  case Nil
  show ?case by simp
next
  case (Cons x xs)
  show ?case
    using Cons.IH [of "w1_gpio_bit_op x s"] bit_op_frame [of x s] by simp
qed

lemma bit_ops_other_lines:
  "drive_line s \<noteq> Some d \<Longrightarrow> driven (w1_gpio_bit_ops xs s) d = driven s d"
proof (induction xs arbitrary: s)
  case Nil
  show ?case by simp
next
  case (Cons x xs)
  have "drive_line (w1_gpio_bit_op x s) \<noteq> Some d"
    using Cons.prems bit_op_frame [of x s] by simp
  then have "driven (w1_gpio_bit_ops xs (w1_gpio_bit_op x s)) d = driven (w1_gpio_bit_op x s) d"
    by (rule Cons.IH)
  then show ?case
    using bit_op_other_lines [OF Cons.prems, of x] by simp
qed

text \<open>
  Claim C5. With a pull-down line, \<open>write_bit(b)\<close> sets that line to the logical inverse
  of \<open>b\<close> (1 for \<open>b = 0\<close>, 0 otherwise) and leaves every other line, the data line among
  them, as it was. Without a pull-down line it sets the data line to \<open>b\<close>.
\<close>

theorem write_bit_drives:
  "(pulldown_gpiod (pdata s) = Some pd \<longrightarrow>
      w1_gpio_write_bit s b =
        s\<lparr>driven := (driven s)(pd \<mapsto> b = 0),
          trace := trace s @ [GpiodSetValue pd (if b = 0 then 1 else 0)]\<rparr> \<and>
      (\<forall>d. d \<noteq> pd \<longrightarrow> driven (w1_gpio_write_bit s b) d = driven s d)) \<and>
   (pulldown_gpiod (pdata s) = None \<and> gpiod (pdata s) = Some d \<longrightarrow>
      w1_gpio_write_bit s b =
        s\<lparr>driven := (driven s)(d \<mapsto> b \<noteq> 0), trace := trace s @ [GpiodSetValue d (uint b)]\<rparr>)"
proof -
  have "\<forall>d. d \<noteq> pd \<longrightarrow> driven (w1_gpio_write_bit s b) d = driven s d"
    if "pulldown_gpiod (pdata s) = Some pd"
    using that by (simp add: write_bit_pulldown)
  then show ?thesis
    using write_bit_pulldown [of s pd b] write_bit_data [of s d b] by blast
qed

text \<open>With the pull-down line 12, and without one (data line 10), for both bit values.\<close>

theorem write_bit_drives_witness:
  "w1_gpio_write_bit (idle_state (Some 12) (Some 11)) 1 =
     (idle_state (Some 12) (Some 11))\<lparr>driven := [12 \<mapsto> False], trace := [GpiodSetValue 12 0]\<rparr> \<and>
   w1_gpio_write_bit (idle_state (Some 12) (Some 11)) 0 =
     (idle_state (Some 12) (Some 11))\<lparr>driven := [12 \<mapsto> True], trace := [GpiodSetValue 12 1]\<rparr> \<and>
   driven (w1_gpio_write_bit (idle_state (Some 12) (Some 11)) 0) 10 = None \<and>
   w1_gpio_write_bit (idle_state None (Some 11)) 1 =
     (idle_state None (Some 11))\<lparr>driven := [10 \<mapsto> True], trace := [GpiodSetValue 10 1]\<rparr> \<and>
   w1_gpio_write_bit (idle_state None (Some 11)) 0 =
     (idle_state None (Some 11))\<lparr>driven := [10 \<mapsto> False], trace := [GpiodSetValue 10 0]\<rparr>"
proof -
  let ?p = "idle_state (Some 12) (Some 11)"
  let ?n = "idle_state None (Some 11)"
  have p: "pulldown_gpiod (pdata ?p) = Some 12"
    and n: "pulldown_gpiod (pdata ?n) = None \<and> gpiod (pdata ?n) = Some 10"
    by (simp_all add: idle_state_def)
  show ?thesis
    using write_bit_drives [of ?p 12 1 10] write_bit_drives [of ?p 12 0 10]
      write_bit_drives [of ?n 12 1 10] write_bit_drives [of ?n 12 0 10] p n
    by (simp add: idle_state_def)
qed

text \<open>
  Claim C6. \<open>read_bit\<close> returns 1 when the level of the data line is high and 0 when it is
  not, and it returns the state as it found it.
\<close>

theorem read_bit_level:
  "gpiod (pdata s) = Some d \<Longrightarrow>
     w1_gpio_read_bit s = ((if level s d then 1 else 0), s) \<and>
     (fst (w1_gpio_read_bit s) = 1) = level s d \<and>
     (fst (w1_gpio_read_bit s) = 0) = (\<not> level s d)"
  by (simp add: w1_gpio_read_bit_def gpiod_get_value_def)

text \<open>The data line 10, read once high and once low.\<close>

theorem read_bit_level_witness:
  "w1_gpio_read_bit (idle_state None (Some 11)) = (1, idle_state None (Some 11)) \<and>
   w1_gpio_read_bit ((idle_state None (Some 11))\<lparr>level := (\<lambda>_. False)\<rparr>) =
     (0, (idle_state None (Some 11))\<lparr>level := (\<lambda>_. False)\<rparr>)"
proof -
  let ?h = "idle_state None (Some 11)"
  let ?l = "?h\<lparr>level := (\<lambda>_. False)\<rparr>"
  have "gpiod (pdata ?h) = Some 10" and "gpiod (pdata ?l) = Some 10"
    by (simp_all add: idle_state_def)
  then show ?thesis
    using read_bit_level [of ?h 10] read_bit_level [of ?l 10]
    by (simp add: idle_state_def)
qed

subsection \<open>Detach\<close>

text \<open>
  Claim C9. On every state, \<open>remove\<close> returns 0; when there is a strong pull-up line, it
  sets the line to 0 and then unregisters the bus master, so that the line is left
  inactive whatever it was before; without such a line it only unregisters.
\<close>

theorem remove_deactivates_strong_pullup:
  "fst (w1_gpio_remove s) = 0 \<and>
   (strong_pullup_gpiod (pdata s) = Some sp \<longrightarrow>
      snd (w1_gpio_remove s) =
        s\<lparr>driven := (driven s)(sp \<mapsto> False),
          trace := trace s @ [GpiodSetValue sp 0, W1RemoveMasterDevice]\<rparr>) \<and>
   (strong_pullup_gpiod (pdata s) = None \<longrightarrow>
      snd (w1_gpio_remove s) = s\<lparr>trace := trace s @ [W1RemoveMasterDevice]\<rparr>)"
  by (simp add: w1_gpio_remove_def gpiod_set_value_def Let_def)

text \<open>A device whose strong pull-up line 11 is active at detach, and one without the line.\<close>

theorem remove_deactivates_strong_pullup_witness:
  "w1_gpio_remove ((idle_state None (Some 11))\<lparr>driven := [11 \<mapsto> True]\<rparr>) =
     (0, (idle_state None (Some 11))
           \<lparr>driven := [11 \<mapsto> False], trace := [GpiodSetValue 11 0, W1RemoveMasterDevice]\<rparr>) \<and>
   w1_gpio_remove (idle_state None None) =
     (0, (idle_state None None)\<lparr>trace := [W1RemoveMasterDevice]\<rparr>)"
proof -
  let ?s = "(idle_state None (Some 11))\<lparr>driven := [11 \<mapsto> True]\<rparr>"
  let ?n = "idle_state None None"
  have "strong_pullup_gpiod (pdata ?s) = Some 11" and "strong_pullup_gpiod (pdata ?n) = None"
    by (simp_all add: idle_state_def)
  then show ?thesis
    using remove_deactivates_strong_pullup [of ?s 11] remove_deactivates_strong_pullup [of ?n 11]
    by (simp add: idle_state_def prod_eq_iff)
qed

subsection \<open>What bit reads and writes leave alone\<close>

text \<open>
  Claim C10. \<open>read_bit\<close> changes nothing. \<open>write_bit\<close> leaves the platform data and every
  line but the one it drives as they were. So does any sequence of bit reads and writes,
  and a duration armed before such a sequence is still pending after it: the next
  \<open>set_pullup(0)\<close> pulses the strong pull-up line for that duration.
\<close>

theorem bit_ops_frame_effect:
  "snd (w1_gpio_read_bit s) = s \<and>
   pdata (w1_gpio_write_bit s b) = pdata s \<and>
   (\<forall>d. drive_line s \<noteq> Some d \<longrightarrow> driven (w1_gpio_write_bit s b) d = driven s d) \<and>
   pdata (w1_gpio_bit_ops xs s) = pdata s \<and>
   (\<forall>d. drive_line s \<noteq> Some d \<longrightarrow> driven (w1_gpio_bit_ops xs s) d = driven s d) \<and>
   (delay \<noteq> 0 \<longrightarrow>
      strong_pullup_duration
        (pdata (w1_gpio_bit_ops xs (snd (w1_gpio_set_pullup s delay)))) = delay) \<and>
   (delay \<noteq> 0 \<and> strong_pullup_gpiod (pdata s) = Some sp \<longrightarrow>
      trace (snd (w1_gpio_set_pullup
        (w1_gpio_bit_ops xs (snd (w1_gpio_set_pullup s delay))) 0)) =
      trace (w1_gpio_bit_ops xs (snd (w1_gpio_set_pullup s delay))) @
        [GpiodSetValue sp 1, Msleep (unat delay), GpiodSetValue sp 0])"
proof -
  let ?a = "snd (w1_gpio_set_pullup s delay)"
  have armed: "pdata (w1_gpio_bit_ops xs ?a) = (pdata s)\<lparr>strong_pullup_duration := delay\<rparr>"
    if "delay \<noteq> 0"
    using that bit_ops_frame [of xs ?a] by (simp add: set_pullup_nonzero)
  have kept: "strong_pullup_duration (pdata (w1_gpio_bit_ops xs ?a)) = delay"
    if "delay \<noteq> 0"
    using armed [OF that] by simp
  have pulse: "trace (snd (w1_gpio_set_pullup (w1_gpio_bit_ops xs ?a) 0)) =
      trace (w1_gpio_bit_ops xs ?a) @
        [GpiodSetValue sp 1, Msleep (unat delay), GpiodSetValue sp 0]"
    if "delay \<noteq> 0" and "strong_pullup_gpiod (pdata s) = Some sp"
  proof -
    have "strong_pullup_duration (pdata (w1_gpio_bit_ops xs ?a)) \<noteq> 0"
      and "strong_pullup_gpiod (pdata (w1_gpio_bit_ops xs ?a)) = Some sp"
      using that armed by simp_all
    then show ?thesis
      using kept [OF that(1)] by (simp add: set_pullup_zero_pulse)
  qed
  show ?thesis
    using read_bit_state [of s] write_bit_frame [of s b] write_bit_other_lines [of s _ b]
      bit_ops_frame [of xs s] bit_ops_other_lines [of s _ xs] kept pulse
    by blast
qed

text \<open>Armed with 200 ms, then a write of 0, a read and a write of 1 on the data line 10.\<close>

theorem bit_ops_frame_effect_witness:
  "strong_pullup_duration
     (pdata (w1_gpio_bit_ops [WriteBit 0, ReadBit, WriteBit 1]
        (snd (w1_gpio_set_pullup (idle_state None (Some 11)) 200)))) = 200 \<and>
   driven (w1_gpio_bit_ops [WriteBit 0, ReadBit, WriteBit 1] (idle_state None (Some 11))) 11 = None \<and>
   driven (w1_gpio_bit_ops [WriteBit 0, ReadBit, WriteBit 1] (idle_state None (Some 11))) 10 = Some True \<and>
   trace (snd (w1_gpio_set_pullup
     (w1_gpio_bit_ops [WriteBit 0, ReadBit, WriteBit 1]
        (snd (w1_gpio_set_pullup (idle_state None (Some 11)) 200))) 0)) =
     [GpiodSetValue 10 0, GpiodSetValue 10 1,
      GpiodSetValue 11 1, Msleep 200, GpiodSetValue 11 0]"
proof -
  let ?s = "idle_state None (Some 11)"
  let ?xs = "[WriteBit 0, ReadBit, WriteBit 1]"
  note frame = bit_ops_frame_effect [of ?s 0 ?xs 200 11]
  have "drive_line ?s \<noteq> Some 11"
    by (simp add: drive_line_def idle_state_def)
  then have "driven (w1_gpio_bit_ops ?xs ?s) 11 = driven ?s 11"
    using frame by blast
  moreover have "strong_pullup_duration
     (pdata (w1_gpio_bit_ops ?xs (snd (w1_gpio_set_pullup ?s 200)))) = 200"
    using frame by simp
  moreover have "driven (w1_gpio_bit_ops ?xs ?s) 10 = Some True"
    by (simp add: idle_state_def w1_gpio_write_bit_def w1_gpio_read_bit_def gpiod_set_value_def)
  moreover have "strong_pullup_gpiod (pdata ?s) = Some 11"
    by (simp add: idle_state_def)
  then have "trace (snd (w1_gpio_set_pullup
        (w1_gpio_bit_ops ?xs (snd (w1_gpio_set_pullup ?s 200))) 0)) =
      trace (w1_gpio_bit_ops ?xs (snd (w1_gpio_set_pullup ?s 200))) @
        [GpiodSetValue 11 1, Msleep (unat (200 :: 32 word)), GpiodSetValue 11 0]"
    using frame by simp
  moreover have "trace (w1_gpio_bit_ops ?xs (snd (w1_gpio_set_pullup ?s 200))) =
      [GpiodSetValue 10 0, GpiodSetValue 10 1]"
    by (simp add: idle_state_def w1_gpio_set_pullup_def w1_gpio_write_bit_def
        w1_gpio_read_bit_def gpiod_set_value_def)
  ultimately show ?thesis
    by (simp add: idle_state_def)
qed

subsection \<open>Attach\<close>

lemmas probe_defs = w1_gpio_probe_def probe_platdata_def probe_gflags_def of_get_property_def
  devm_gpiod_get_index_optional_def devm_gpiod_get_index_def gpiod_direction_output_def
  probe_master_def

lemmas example_defs = dt_node_def gpios_data_strong_def gpios_all_def gpios_data_only_def

text \<open>
  What a successful attach leaves behind: both non-optional lines were found, the bus
  master is the one \<open>probe_master\<close> builds from the final flags, and the trace has the
  three requests, the initial drive of the data line when there is no pull-down line, and
  the registration.
\<close>

lemma probe_Inr:
  assumes "w1_gpio_probe pdev = Inr s"
  shows "\<exists>d sp.
     gpio_lookup pdev 0 = Assigned d \<and> gpio_lookup pdev 1 = Assigned sp \<and>
     gpiod (pdata s) = Some d \<and> strong_pullup_gpiod (pdata s) = Some sp \<and>
     pulldown_gpiod (pdata s) =
       (case gpio_lookup pdev 2 of Assigned pd \<Rightarrow> Some pd | _ \<Rightarrow> None) \<and>
     drvdata s =
       Some (probe_master
         (if pulldown_gpiod (pdata s) \<noteq> None then GPIOD_IN else probe_gflags pdev) (pdata s)) \<and>
     trace s =
       [DevmGpiodGetIndexOptional 2 GPIOD_OUT_LOW,
        DevmGpiodGetIndex 0
          (if pulldown_gpiod (pdata s) \<noteq> None then GPIOD_IN else probe_gflags pdev),
        DevmGpiodGetIndex 1 GPIOD_OUT_LOW] @
       (if pulldown_gpiod (pdata s) = None then [GpiodDirectionOutput d 1] else []) @
       [W1AddMasterDevice] \<and>
     (if pulldown_gpiod (pdata s) = None then driven s d = Some True else True)"
  using assms
  by (auto simp: w1_gpio_probe_def devm_gpiod_get_index_optional_def devm_gpiod_get_index_def
      Let_def gpiod_direction_output_def
      split: if_splits option.splits gpio_lookup.splits prod.splits gpio_ptr.splits)

text \<open>No attach succeeds on a device without a GPIO at index 1.\<close>

lemma probe_needs_strong_pullup:
  "gpio_lookup pdev 1 = NotAssigned \<Longrightarrow> w1_gpio_probe pdev \<noteq> Inr s"
  using probe_Inr [of pdev s] by auto

lemma probe_data_strong:
  "\<exists>s. w1_gpio_probe (dt_node props gpios_data_strong) = Inr s"
  by (simp add: probe_defs example_defs)

lemma probe_all:
  "\<exists>s. w1_gpio_probe (dt_node props gpios_all) = Inr s"
  by (simp add: probe_defs example_defs)

text \<open>
  Every successful attach leaves a bus master with the \<open>set_pullup\<close> callback: the strong
  pull-up line is always there, so the test at line 139 always holds.
\<close>

lemma probe_always_advertises:
  assumes "w1_gpio_probe pdev = Inr s"
  shows "\<exists>m. drvdata s = Some m \<and> set_pullup m = Some W1_GPIO_SET_PULLUP"
  using probe_Inr [OF assms] by (auto simp: probe_master_def)

text \<open>
  Claim C3. The claim has the \<open>set_pullup\<close> callback advertised exactly when there is a
  strong pull-up line or the data line is in open-drain mode, and omitted on an attached
  device with the property \<^verbatim>\<open>linux,open-drain\<close> and no strong pull-up line. The driver
  does not behave so. A node with a data line only has its data line requested with the
  open-drain flags, and yet attach fails with \<^verbatim>\<open>-ENOENT\<close> at the request for index 1,
  before any bus master is registered: nothing is advertised. The same node with the
  property fails in the same way, so that no device attaches without the callback. With
  the strong pull-up line added, the node with the property attaches and advertises the
  callback.
\<close>

theorem probe_open_drain_not_advertised:
  "probe_gflags (dt_node [] gpios_data_only) = GPIOD_OUT_LOW_OPEN_DRAIN \<and>
   gpio_lookup (dt_node [] gpios_data_only) 2 = NotAssigned \<and>
   gpio_lookup (dt_node [] gpios_data_only) 0 = Assigned 10 \<and>
   w1_gpio_probe (dt_node [] gpios_data_only) = Inl (- ENOENT) \<and>
   w1_gpio_probe (dt_node [''linux,open-drain''] gpios_data_only) = Inl (- ENOENT) \<and>
   (\<exists>s m. w1_gpio_probe (dt_node [''linux,open-drain''] gpios_data_strong) = Inr s \<and>
      drvdata s = Some m \<and> set_pullup m = Some W1_GPIO_SET_PULLUP)"
  by (simp add: probe_defs example_defs)

text \<open>
  Claim C7. After a successful attach: with a pull-down line, the data line was requested
  as an input, is never driven, and bit writes go to the pull-down line; without a
  pull-down line and without the open-drain property (or without a device tree), the data
  line was requested as an open-drain output starting low and was then driven high;
  without a pull-down line and with the property, it was requested as a plain output
  starting low.
\<close>

theorem probe_data_line_mode:
  assumes "w1_gpio_probe pdev = Inr s"
  shows "pulldown_gpiod (pdata s) =
       (case gpio_lookup pdev 2 of Assigned pd \<Rightarrow> Some pd | _ \<Rightarrow> None) \<and>
     (\<forall>pd. pulldown_gpiod (pdata s) = Some pd \<longrightarrow>
        trace s =
          [DevmGpiodGetIndexOptional 2 GPIOD_OUT_LOW, DevmGpiodGetIndex 0 GPIOD_IN,
           DevmGpiodGetIndex 1 GPIOD_OUT_LOW, W1AddMasterDevice] \<and>
        (\<forall>b. trace (w1_gpio_write_bit s b) =
           trace s @ [GpiodSetValue pd (if b = 0 then 1 else 0)])) \<and>
     (pulldown_gpiod (pdata s) = None \<and>
      \<not> (of_have_populated_dt pdev \<and> of_get_property pdev ''linux,open-drain'') \<longrightarrow>
        (\<exists>d. gpiod (pdata s) = Some d \<and>
           trace s =
             [DevmGpiodGetIndexOptional 2 GPIOD_OUT_LOW,
              DevmGpiodGetIndex 0 GPIOD_OUT_LOW_OPEN_DRAIN,
              DevmGpiodGetIndex 1 GPIOD_OUT_LOW, GpiodDirectionOutput d 1,
              W1AddMasterDevice] \<and>
           driven s d = Some True)) \<and>
     (pulldown_gpiod (pdata s) = None \<and>
      of_have_populated_dt pdev \<and> of_get_property pdev ''linux,open-drain'' \<longrightarrow>
        (\<exists>d. gpiod (pdata s) = Some d \<and>
           trace s =
             [DevmGpiodGetIndexOptional 2 GPIOD_OUT_LOW,
              DevmGpiodGetIndex 0 GPIOD_OUT_LOW,
              DevmGpiodGetIndex 1 GPIOD_OUT_LOW, GpiodDirectionOutput d 1,
              W1AddMasterDevice]))"
proof -
  let ?gf = "if pulldown_gpiod (pdata s) \<noteq> None then GPIOD_IN else probe_gflags pdev"
  from probe_Inr [OF assms] obtain d where
    pd: "pulldown_gpiod (pdata s) =
       (case gpio_lookup pdev 2 of Assigned pd \<Rightarrow> Some pd | _ \<Rightarrow> None)" and
    d: "gpiod (pdata s) = Some d" and
    tr: "trace s =
       [DevmGpiodGetIndexOptional 2 GPIOD_OUT_LOW, DevmGpiodGetIndex 0 ?gf,
        DevmGpiodGetIndex 1 GPIOD_OUT_LOW] @
       (if pulldown_gpiod (pdata s) = None then [GpiodDirectionOutput d 1] else []) @
       [W1AddMasterDevice]" and
    hi: "if pulldown_gpiod (pdata s) = None then driven s d = Some True else True"
    by blast
  have a: "trace s =
          [DevmGpiodGetIndexOptional 2 GPIOD_OUT_LOW, DevmGpiodGetIndex 0 GPIOD_IN,
           DevmGpiodGetIndex 1 GPIOD_OUT_LOW, W1AddMasterDevice] \<and>
        (\<forall>b. trace (w1_gpio_write_bit s b) =
           trace s @ [GpiodSetValue p (if b = 0 then 1 else 0)])"
    if "pulldown_gpiod (pdata s) = Some p" for p
    using that tr by (simp add: write_bit_pulldown)
  have b: "\<exists>d. gpiod (pdata s) = Some d \<and>
           trace s =
             [DevmGpiodGetIndexOptional 2 GPIOD_OUT_LOW,
              DevmGpiodGetIndex 0 GPIOD_OUT_LOW_OPEN_DRAIN,
              DevmGpiodGetIndex 1 GPIOD_OUT_LOW, GpiodDirectionOutput d 1,
              W1AddMasterDevice] \<and>
           driven s d = Some True"
    if "pulldown_gpiod (pdata s) = None"
      and "\<not> (of_have_populated_dt pdev \<and> of_get_property pdev ''linux,open-drain'')"
    using that tr d hi by (simp add: probe_gflags_def)
  have c: "\<exists>d. gpiod (pdata s) = Some d \<and>
           trace s =
             [DevmGpiodGetIndexOptional 2 GPIOD_OUT_LOW,
              DevmGpiodGetIndex 0 GPIOD_OUT_LOW,
              DevmGpiodGetIndex 1 GPIOD_OUT_LOW, GpiodDirectionOutput d 1,
              W1AddMasterDevice]"
    if "pulldown_gpiod (pdata s) = None"
      and "of_have_populated_dt pdev \<and> of_get_property pdev ''linux,open-drain''"
    using that tr d by (simp add: probe_gflags_def)
  show ?thesis
    using pd a b c by blast
qed

text \<open>One device for each of the three cases.\<close>

theorem probe_data_line_mode_witness:
  "(\<exists>s. w1_gpio_probe (dt_node [''linux,open-drain''] gpios_all) = Inr s \<and>
      pulldown_gpiod (pdata s) = Some 12 \<and>
      trace s =
        [DevmGpiodGetIndexOptional 2 GPIOD_OUT_LOW, DevmGpiodGetIndex 0 GPIOD_IN,
         DevmGpiodGetIndex 1 GPIOD_OUT_LOW, W1AddMasterDevice] \<and>
      trace (w1_gpio_write_bit s 1) = trace s @ [GpiodSetValue 12 0]) \<and>
   (\<exists>s. w1_gpio_probe (dt_node [] gpios_data_strong) = Inr s \<and>
      trace s =
        [DevmGpiodGetIndexOptional 2 GPIOD_OUT_LOW,
         DevmGpiodGetIndex 0 GPIOD_OUT_LOW_OPEN_DRAIN,
         DevmGpiodGetIndex 1 GPIOD_OUT_LOW, GpiodDirectionOutput 10 1,
         W1AddMasterDevice] \<and>
      driven s 10 = Some True) \<and>
   (\<exists>s. w1_gpio_probe (dt_node [''linux,open-drain''] gpios_data_strong) = Inr s \<and>
      trace s =
        [DevmGpiodGetIndexOptional 2 GPIOD_OUT_LOW,
         DevmGpiodGetIndex 0 GPIOD_OUT_LOW,
         DevmGpiodGetIndex 1 GPIOD_OUT_LOW, GpiodDirectionOutput 10 1,
         W1AddMasterDevice])"
proof -
  let ?a = "dt_node [''linux,open-drain''] gpios_all"
  let ?b = "dt_node [] gpios_data_strong"
  let ?c = "dt_node [''linux,open-drain''] gpios_data_strong"
  obtain sa where sa: "w1_gpio_probe ?a = Inr sa"
    using probe_all by blast
  obtain sb where sb: "w1_gpio_probe ?b = Inr sb"
    using probe_data_strong by blast
  obtain sc where sc: "w1_gpio_probe ?c = Inr sc"
    using probe_data_strong by blast
  have fa: "gpio_lookup ?a 2 = Assigned 12"
    and fb: "gpio_lookup ?b 2 = NotAssigned"
      "\<not> (of_have_populated_dt ?b \<and> of_get_property ?b ''linux,open-drain'')"
    and fc: "gpio_lookup ?c 2 = NotAssigned"
      "of_have_populated_dt ?c \<and> of_get_property ?c ''linux,open-drain''"
    by (simp_all add: example_defs of_get_property_def)
  have da: "gpiod (pdata sa) = Some 10"
    using sa by (auto simp: probe_defs example_defs)
  have db: "gpiod (pdata sb) = Some 10"
    using sb by (auto simp: probe_defs example_defs)
  have dc: "gpiod (pdata sc) = Some 10"
    using sc by (auto simp: probe_defs example_defs)
  have "pulldown_gpiod (pdata sa) = Some 12 \<and>
      trace sa =
        [DevmGpiodGetIndexOptional 2 GPIOD_OUT_LOW, DevmGpiodGetIndex 0 GPIOD_IN,
         DevmGpiodGetIndex 1 GPIOD_OUT_LOW, W1AddMasterDevice] \<and>
      trace (w1_gpio_write_bit sa 1) = trace sa @ [GpiodSetValue 12 0]"
    using probe_data_line_mode [OF sa] fa by simp
  moreover have "trace sb =
        [DevmGpiodGetIndexOptional 2 GPIOD_OUT_LOW,
         DevmGpiodGetIndex 0 GPIOD_OUT_LOW_OPEN_DRAIN,
         DevmGpiodGetIndex 1 GPIOD_OUT_LOW, GpiodDirectionOutput 10 1,
         W1AddMasterDevice] \<and>
      driven sb 10 = Some True"
    using probe_data_line_mode [OF sb] fb db by auto
  moreover have "trace sc =
        [DevmGpiodGetIndexOptional 2 GPIOD_OUT_LOW,
         DevmGpiodGetIndex 0 GPIOD_OUT_LOW,
         DevmGpiodGetIndex 1 GPIOD_OUT_LOW, GpiodDirectionOutput 10 1,
         W1AddMasterDevice]"
    using probe_data_line_mode [OF sc] fc dc by auto
  ultimately show ?thesis
    using sa sb sc by blast
qed

text \<open>
  Claim C4. Attach of a device that has a data line and no strong pull-up line fails with
  \<^verbatim>\<open>-ENOENT\<close>: the line at index 1 is requested with \<^verbatim>\<open>devm_gpiod_get_index\<close>, not
  with the optional variant used for index 2. A device with data and strong pull-up lines
  and no pull-down line attaches.
\<close>

theorem probe_fails_without_strong_pullup:
  "w1_gpio_probe (dt_node [] gpios_data_only) = Inl (- ENOENT) \<and>
   (\<exists>s. w1_gpio_probe (dt_node [] gpios_data_strong) = Inr s \<and>
      pulldown_gpiod (pdata s) = None \<and> strong_pullup_gpiod (pdata s) = Some 11)"
  by (simp add: probe_defs example_defs)

end
